theory Spec2Isabelle
  imports Main "HOL-Library.Word"
begin

section \<open>The authentication program auth.c\<close>

text \<open>
  The development embeds the functions of \<^verbatim>\<open>src/test-vul/auth.c\<close> that own the
  credential table, the session allocation, the token handling and the configuration
  read. Each C function becomes a HOL function of the same name. Behaviour that the
  C standard leaves undefined (a write behind the end of an array, a format directive
  without argument, an access to released storage) is a value of type \<open>fault\<close>, so that
  every such path of the source is a branch of the model. The functions return
  \<^verbatim>\<open>void\<close> and report through \<^verbatim>\<open>printf\<close>; the model returns, in place of the
  printed line, a constructor that names the \<^verbatim>\<open>printf\<close> reached.
\<close>

subsection \<open>C strings\<close>

text \<open>
  A \<^verbatim>\<open>char *\<close> argument is given by the bytes it points to. The string it denotes
  ends before the first NUL byte; a list without NUL byte stands for a buffer whose
  terminator follows directly.
\<close>

definition NUL :: char where
  "NUL = CHR 0x00"

definition c_str :: "char list \<Rightarrow> string" where
  "c_str bs = takeWhile (\<lambda>c. c \<noteq> NUL) bs"

definition strlen_c :: "char list \<Rightarrow> nat" where
  "strlen_c bs = length (c_str bs)"

text \<open>\<^verbatim>\<open>strcmp(a, b) == 0\<close>\<close>

definition strcmp_eq :: "char list \<Rightarrow> char list \<Rightarrow> bool" where
  "strcmp_eq a b = (c_str a = c_str b)"

datatype fault =
    BufferOverflow nat nat  \<comment> \<open>bytes written including the terminator, size of the array\<close>
  | FormatString            \<comment> \<open>conversion specification without a matching argument\<close>
  | OutOfBounds int         \<comment> \<open>index outside the array \<^verbatim>\<open>users\<close>\<close>
  | NullDeref               \<comment> \<open>a null pointer passed where storage is read or written\<close>
  | UseAfterFree            \<comment> \<open>access to storage that was passed to \<^verbatim>\<open>free\<close>\<close>
  | InvalidFree             \<comment> \<open>\<^verbatim>\<open>free\<close> of storage that is not live\<close>

text \<open>
  A character array of fixed size that holds a string is represented by that string.
  \<^verbatim>\<open>strcpy\<close> writes the source and its terminator, \<^verbatim>\<open>strcat\<close> appends behind the
  text already there; neither looks at the size of the destination, which is the first
  argument here.
\<close>

definition strcpy_c :: "nat \<Rightarrow> char list \<Rightarrow> fault + string" where
  "strcpy_c cap src =
     (if cap < strlen_c src + 1 then Inl (BufferOverflow (strlen_c src + 1) cap)
      else Inr (c_str src))"

definition strcat_c :: "nat \<Rightarrow> string \<Rightarrow> char list \<Rightarrow> fault + string" where
  "strcat_c cap dst src =
     (if cap < length dst + strlen_c src + 1
      then Inl (BufferOverflow (length dst + strlen_c src + 1) cap)
      else Inr (dst @ c_str src))"

text \<open>
  \<^verbatim>\<open>printf(username)\<close> passes no argument behind the format. The call is defined
  only if every \<^verbatim>\<open>%\<close> of the format is the first half of \<^verbatim>\<open>%%\<close>.
\<close>

fun format_ok :: "string \<Rightarrow> bool" where
  "format_ok [] = True"
| "format_ok [c] = (c \<noteq> CHR ''%'')"
| "format_ok (c # d # cs) =
     (if c = CHR ''%'' then d = CHR ''%'' \<and> format_ok cs else format_ok (d # cs))"

definition printf_fmt :: "char list \<Rightarrow> fault + unit" where
  "printf_fmt fmt = (if format_ok (c_str fmt) then Inr () else Inl FormatString)"

subsection \<open>The credential table\<close>

definition MAX_USERS :: int where
  "MAX_USERS = 100"

definition ADMIN_PASSWORD :: string where
  "ADMIN_PASSWORD = ''admin123''"

text \<open>\<^verbatim>\<open>typedef struct { char username[32]; char password[32]; int is_admin; } User;\<close>\<close>

record User =
  username :: string
  password :: string
  is_admin :: int

text \<open>The globals \<^verbatim>\<open>User users[MAX_USERS]\<close> and \<^verbatim>\<open>int user_count\<close>.\<close>

record store =
  users :: "User list"
  user_count :: int

text \<open>Objects of static storage duration start zeroed.\<close>

definition zero_User :: User where
  "zero_User = \<lparr>username = [], password = [], is_admin = 0\<rparr>"

definition init_store :: store where
  "init_store = \<lparr>users = replicate (nat MAX_USERS) zero_User, user_count = 0\<rparr>"

subsection \<open>login\<close>

datatype login_result =
    AdminGranted        \<comment> \<open>\<^verbatim>\<open>Admin login successful!\<close>\<close>
  | UserGranted int     \<comment> \<open>\<^verbatim>\<open>Login successful for user: ...\<close>, with the index \<open>i\<close> of the loop\<close>
  | Denied              \<comment> \<open>\<^verbatim>\<open>Login failed!\<close>\<close>

text \<open>The \<^verbatim>\<open>for\<close> loop of \<^verbatim>\<open>login\<close>, entered with \<open>i = 0\<close>.\<close>

function login_scan :: "store \<Rightarrow> char list \<Rightarrow> char list \<Rightarrow> int \<Rightarrow> fault + login_result" where
  "login_scan st uname passwd i =
     (if i < user_count st then
        (if i < 0 \<or> int (length (users st)) \<le> i then Inl (OutOfBounds i)
         else if strcmp_eq (username (users st ! nat i)) uname \<and>
                 strcmp_eq (password (users st ! nat i)) passwd
              then Inr (UserGranted i)
              else login_scan st uname passwd (i + 1))
      else Inr Denied)"
  by pat_completeness auto
termination
  by (relation "measure (\<lambda>(st, uname, passwd, i). nat (user_count st - i))") auto

text \<open>
  \<^verbatim>\<open>sprintf\<close> stores the formatted text and its terminator, whatever the size
  of the destination, which is the first argument here.
\<close>

definition sprintf_c :: "nat \<Rightarrow> string \<Rightarrow> fault + string" where
  "sprintf_c cap text =
     (if cap < length text + 1 then Inl (BufferOverflow (length text + 1) cap)
      else Inr text)"

text \<open>The text that the format of the \<^verbatim>\<open>sprintf\<close> in \<^verbatim>\<open>login\<close> produces.\<close>

definition query_text :: "char list \<Rightarrow> char list \<Rightarrow> string" where
  "query_text uname passwd =
     ''SELECT * FROM users WHERE username='' @ [CHR 0x27] @ c_str uname @ [CHR 0x27] @
     '' AND password='' @ [CHR 0x27] @ c_str passwd @ [CHR 0x27]"

definition login :: "store \<Rightarrow> char list \<Rightarrow> char list \<Rightarrow> fault + login_result" where
  "login st uname passwd =
     (case strcpy_c 64 uname of Inl f \<Rightarrow> Inl f | Inr b1 \<Rightarrow>
      case strcat_c 64 b1 '':'' of Inl f \<Rightarrow> Inl f | Inr b2 \<Rightarrow>
      case strcat_c 64 b2 passwd of Inl f \<Rightarrow> Inl f | Inr buffer \<Rightarrow>
      case printf_fmt uname of Inl f \<Rightarrow> Inl f | Inr _ \<Rightarrow>
      case sprintf_c 256 (query_text uname passwd) of Inl f \<Rightarrow> Inl f | Inr query \<Rightarrow>
      if strcmp_eq uname ''admin'' \<and> strcmp_eq passwd ADMIN_PASSWORD then Inr AdminGranted
      else login_scan st uname passwd 0)"

subsection \<open>register_user\<close>

datatype reg_result =
    CapacityExceeded    \<comment> \<open>\<^verbatim>\<open>Max users reached\<close>\<close>
  | Registered          \<comment> \<open>\<^verbatim>\<open>User registered: ...\<close>\<close>

definition register_user :: "store \<Rightarrow> char list \<Rightarrow> char list \<Rightarrow> fault + reg_result \<times> store" where
  "register_user st uname passwd =
     (if MAX_USERS \<le> user_count st then Inr (CapacityExceeded, st)
      else if user_count st < 0 \<or> int (length (users st)) \<le> user_count st
           then Inl (OutOfBounds (user_count st))
      else case strcpy_c 32 uname of Inl f \<Rightarrow> Inl f | Inr un \<Rightarrow>
           case strcpy_c 32 passwd of Inl f \<Rightarrow> Inl f | Inr pw \<Rightarrow>
           Inr (Registered,
                st\<lparr>users := (users st)[nat (user_count st) :=
                                (users st ! nat (user_count st))
                                  \<lparr>username := un, password := pw, is_admin := 0\<rparr>],
                   user_count := user_count st + 1\<rparr>))"

text \<open>A caller that registers one pair after the other, stopping at a fault.\<close>

fun register_all :: "store \<Rightarrow> (char list \<times> char list) list \<Rightarrow> fault + reg_result list \<times> store" where
  "register_all st [] = Inr ([], st)"
| "register_all st ((uname, passwd) # rest) =
     (case register_user st uname passwd of Inl f \<Rightarrow> Inl f | Inr (r, st1) \<Rightarrow>
      case register_all st1 rest of Inl f \<Rightarrow> Inl f | Inr (rs, st2) \<Rightarrow> Inr (r # rs, st2))"

subsection \<open>The allocator\<close>

text \<open>
  Storage obtained from \<^verbatim>\<open>malloc\<close> is a list of blocks; the pointer \<open>Addr a\<close> refers
  to block \<open>a\<close>. A block keeps its bytes and whether it is live. Which requests the
  allocator grants, \<^verbatim>\<open>malloc(0)\<close> among them, is left to the implementation by the
  C standard and is the field \<open>grants\<close>; the indeterminate bytes of fresh storage are
  the field \<open>garbage\<close>.
\<close>

datatype ptr = Null | Addr nat

record block =
  cells :: "char list"
  live :: bool

record heap =
  blocks :: "block list"
  grants :: "nat \<Rightarrow> bool"
  garbage :: "nat \<Rightarrow> char"

definition malloc_c :: "heap \<Rightarrow> nat \<Rightarrow> ptr \<times> heap" where
  "malloc_c h n =
     (if grants h n
      then (Addr (length (blocks h)),
            h\<lparr>blocks := blocks h @ [\<lparr>cells = map (garbage h) [0..<n], live = True\<rparr>]\<rparr>)
      else (Null, h))"

definition free_c :: "heap \<Rightarrow> ptr \<Rightarrow> fault + heap" where
  "free_c h p =
     (case p of Null \<Rightarrow> Inr h
      | Addr a \<Rightarrow>
          if a < length (blocks h) \<and> live (blocks h ! a)
          then Inr (h\<lparr>blocks := (blocks h)[a := (blocks h ! a)\<lparr>live := False\<rparr>]\<rparr>)
          else Inl InvalidFree)"

text \<open>Reading the string at a pointer, as \<^verbatim>\<open>strlen\<close> and \<^verbatim>\<open>%s\<close> do.\<close>

definition read_str :: "heap \<Rightarrow> ptr \<Rightarrow> fault + string" where
  "read_str h p =
     (case p of Null \<Rightarrow> Inl NullDeref
      | Addr a \<Rightarrow>
          if length (blocks h) \<le> a then Inl UseAfterFree
          else if live (blocks h ! a) then
            (if NUL \<in> set (cells (blocks h ! a)) then Inr (c_str (cells (blocks h ! a)))
             else Inl (BufferOverflow (length (cells (blocks h ! a)) + 1)
                                      (length (cells (blocks h ! a)))))
          else Inl UseAfterFree)"

definition memset_c :: "heap \<Rightarrow> ptr \<Rightarrow> char \<Rightarrow> nat \<Rightarrow> fault + heap" where
  "memset_c h p c n =
     (case p of Null \<Rightarrow> Inl NullDeref
      | Addr a \<Rightarrow>
          if length (blocks h) \<le> a then Inl UseAfterFree
          else if live (blocks h ! a) then
            (if length (cells (blocks h ! a)) < n
             then Inl (BufferOverflow n (length (cells (blocks h ! a))))
             else Inr (h\<lparr>blocks := (blocks h)[a := (blocks h ! a)
                          \<lparr>cells := replicate n c @ drop n (cells (blocks h ! a))\<rparr>]\<rparr>))
          else Inl UseAfterFree)"

text \<open>\<^verbatim>\<open>strdup\<close> asks \<^verbatim>\<open>malloc\<close> for the string and its terminator and copies both.\<close>

definition strdup_c :: "heap \<Rightarrow> char list \<Rightarrow> ptr \<times> heap" where
  "strdup_c h s =
     (case malloc_c h (strlen_c s + 1) of
        (Null, h1) \<Rightarrow> (Null, h1)
      | (Addr a, h1) \<Rightarrow>
          (Addr a, h1\<lparr>blocks := (blocks h1)[a := (blocks h1 ! a)\<lparr>cells := c_str s @ [NUL]\<rparr>]\<rparr>))"

subsection \<open>allocate_session\<close>

text \<open>
  \<^verbatim>\<open>int\<close> has 32 bits and \<^verbatim>\<open>size_t\<close> 64. In \<^verbatim>\<open>size * sizeof(char)\<close> and in the
  third argument of \<^verbatim>\<open>memset\<close> the \<^verbatim>\<open>int\<close> is converted to \<^verbatim>\<open>size_t\<close>, which
  keeps its value modulo \<open>2 ^ 64\<close>; the product is taken in \<^verbatim>\<open>size_t\<close>. The
  parameter \<^verbatim>\<open>size\<close> is \<open>sz\<close> here.
\<close>

type_synonym c_int = "32 word"
type_synonym size_t = "64 word"

definition sizeof_char :: size_t where
  "sizeof_char = 1"

datatype alloc_result =
    AllocationFailed        \<comment> \<open>\<^verbatim>\<open>Allocation failed\<close>\<close>
  | SessionAllocated ptr    \<comment> \<open>\<^verbatim>\<open>Session allocated: ... bytes\<close>, with the local \<^verbatim>\<open>session\<close>\<close>

definition allocate_session :: "heap \<Rightarrow> c_int \<Rightarrow> fault + alloc_result \<times> heap" where
  "allocate_session h sz =
     (case malloc_c h (unat ((scast sz :: size_t) * sizeof_char)) of
        (Null, h1) \<Rightarrow> Inr (AllocationFailed, h1)
      | (Addr a, h1) \<Rightarrow>
          (case memset_c h1 (Addr a) NUL (unat (scast sz :: size_t)) of
             Inl f \<Rightarrow> Inl f
           | Inr h2 \<Rightarrow> Inr (SessionAllocated (Addr a), h2)))"

subsection \<open>process_token\<close>

datatype token_result =
    Processed string    \<comment> \<open>\<^verbatim>\<open>Processing token: ...\<close>, with the text printed for \<^verbatim>\<open>%s\<close>\<close>

definition process_token :: "heap \<Rightarrow> char list \<Rightarrow> fault + token_result \<times> heap" where
  "process_token h token =
     (case strdup_c h token of (token_copy, h1) \<Rightarrow>
      case read_str h1 token_copy of Inl f \<Rightarrow> Inl f | Inr s \<Rightarrow>
      case (if 10 < length s then free_c h1 token_copy else Inr h1) of
        Inl f \<Rightarrow> Inl f
      | Inr h2 \<Rightarrow>
          (case read_str h2 token_copy of Inl f \<Rightarrow> Inl f
           | Inr out \<Rightarrow> Inr (Processed out, h2)))"

subsection \<open>check_and_read_config\<close>

text \<open>
  The file system maps a path to the file there, if any; \<open>readable\<close> says whether the
  process may read it. Between the call of \<^verbatim>\<open>access\<close> and the call of \<^verbatim>\<open>fopen\<close>
  other processes run, so the function takes two file systems: the one \<^verbatim>\<open>access\<close>
  sees and the one \<^verbatim>\<open>fopen\<close> sees.
\<close>

record file_c =
  content :: "char list"
  readable :: bool

type_synonym filesystem = "string \<Rightarrow> file_c option"

text \<open>\<^verbatim>\<open>access(filepath, R_OK)\<close>\<close>

definition access_R_OK :: "filesystem \<Rightarrow> char list \<Rightarrow> int" where
  "access_R_OK fs filepath =
     (case fs (c_str filepath) of None \<Rightarrow> - 1
      | Some f \<Rightarrow> if readable f then 0 else - 1)"

text \<open>\<^verbatim>\<open>fopen(filepath, "r")\<close>: the stream is the content still to be read.\<close>

definition fopen_r :: "filesystem \<Rightarrow> char list \<Rightarrow> char list option" where
  "fopen_r fs filepath =
     (case fs (c_str filepath) of None \<Rightarrow> None
      | Some f \<Rightarrow> if readable f then Some (content f) else None)"

text \<open>\<^verbatim>\<open>fread(buffer, 1, n, fp)\<close>: the bytes that arrive in the buffer.\<close>

definition fread_c :: "nat \<Rightarrow> char list \<Rightarrow> char list" where
  "fread_c n stream = take n stream"

text \<open>The result is the \<^verbatim>\<open>int\<close> returned; the local \<^verbatim>\<open>buffer\<close> is dropped on return.\<close>

definition check_and_read_config :: "filesystem \<Rightarrow> filesystem \<Rightarrow> char list \<Rightarrow> int" where
  "check_and_read_config fs_access fs_fopen filepath =
     (if access_R_OK fs_access filepath = 0 then
        (case fopen_r fs_fopen filepath of
           Some fp \<Rightarrow> (let buffer = fread_c 1024 fp in 1)
         | None \<Rightarrow> 0)
      else 0)"

subsection \<open>A heap to run on\<close>

text \<open>
  The heap of a process that has not allocated yet, with an allocator that behaves as
  the one of glibc: a request of zero bytes yields a pointer that is not null, and
  a request above \<^verbatim>\<open>PTRDIFF_MAX\<close> is refused.
\<close>

definition glibc_heap :: heap where
  "glibc_heap = \<lparr>blocks = [], grants = (\<lambda>n. n < 2 ^ 63), garbage = (\<lambda>_. CHR 0xAA)\<rparr>"

section \<open>Properties\<close>

declare login_scan.simps [simp del]

subsection \<open>Strings and records\<close>

lemma c_str_admin: "c_str ''admin'' = ''admin''"
  by (simp add: c_str_def NUL_def)

lemma c_str_colon: "c_str '':'' = '':''"
  by (simp add: c_str_def NUL_def)

lemma c_str_admin_password: "c_str ADMIN_PASSWORD = ''admin123''"
  by (simp add: c_str_def NUL_def ADMIN_PASSWORD_def)

lemma c_str_terminated: "c_str (c_str bs @ NUL # rest) = c_str bs"
  by (simp add: c_str_def takeWhile_append)

lemma User_overwrite:
  "(r :: User)\<lparr>username := a, password := b, is_admin := c\<rparr> =
   \<lparr>username = a, password = b, is_admin = c\<rparr>"
  by (cases r) simp

subsection \<open>login\<close>

text \<open>
  C1. \<^verbatim>\<open>login("admin", ADMIN_PASSWORD)\<close> reaches \<^verbatim>\<open>Admin login successful!\<close> in every
  state of the table, the empty one included: the comparison with the built-in
  credential stands before the loop over \<^verbatim>\<open>users\<close>, and its outcome is the same for
  all contents of \<^verbatim>\<open>users\<close> and \<^verbatim>\<open>user_count\<close>.
\<close>

theorem login_admin_granted:
  "login st ''admin'' ADMIN_PASSWORD = Inr AdminGranted"
  by (simp add: login_def strcpy_c_def strcat_c_def printf_fmt_def sprintf_c_def
      strlen_c_def query_text_def strcmp_eq_def c_str_admin c_str_admin_password c_str_colon)

theorem login_admin_granted_witness:
  "login init_store ''admin'' ''admin123'' = Inr AdminGranted"
  using login_admin_granted [of init_store] by (simp add: ADMIN_PASSWORD_def)

text \<open>
  What the loop returns. If it reports a user, the index is the first one from \<open>i\<close> on
  whose name and password both compare equal; if it reports failure, no index from
  \<open>i\<close> on below \<^verbatim>\<open>user_count\<close> has both equal.
\<close>

lemma login_scan_granted:
  "login_scan st uname passwd i = Inr (UserGranted k) \<Longrightarrow>
   i \<le> k \<and> k < user_count st \<and> 0 \<le> k \<and> nat k < length (users st) \<and>
   strcmp_eq (username (users st ! nat k)) uname \<and>
   strcmp_eq (password (users st ! nat k)) passwd \<and>
   (\<forall>j. i \<le> j \<and> j < k \<longrightarrow>
      \<not> (strcmp_eq (username (users st ! nat j)) uname \<and>
         strcmp_eq (password (users st ! nat j)) passwd))"
proof (induction st uname passwd i rule: login_scan.induct)
  case (1 st uname passwd i)
  show ?case
  proof (cases "strcmp_eq (username (users st ! nat i)) uname \<and>
                strcmp_eq (password (users st ! nat i)) passwd")
    case True
    with "1.prems" show ?thesis
      by (subst (asm) login_scan.simps) (auto split: if_splits)
  next
    case False
    with "1.prems" have run: "i < user_count st" "\<not> (i < 0 \<or> int (length (users st)) \<le> i)"
      "login_scan st uname passwd (i + 1) = Inr (UserGranted k)"
      by (subst (asm) login_scan.simps, auto split: if_splits)+
    note ih = "1.IH" [OF run(1) run(2) False run(3)]
    have "\<not> (strcmp_eq (username (users st ! nat j)) uname \<and>
             strcmp_eq (password (users st ! nat j)) passwd)" if "i \<le> j" "j < k" for j
    proof (cases "j = i")
      case True
      with False show ?thesis by simp
    next
      case False
      with that have "i + 1 \<le> j" by simp
      with ih that show ?thesis by blast
    qed
    with ih show ?thesis by auto
  qed
qed

lemma login_scan_denied:
  "login_scan st uname passwd i = Inr Denied \<Longrightarrow>
   (\<forall>j. i \<le> j \<and> j < user_count st \<longrightarrow>
      \<not> (strcmp_eq (username (users st ! nat j)) uname \<and>
         strcmp_eq (password (users st ! nat j)) passwd))"
proof (induction st uname passwd i rule: login_scan.induct)
  case (1 st uname passwd i)
  show ?case
  proof (cases "i < user_count st")
    case False
    then show ?thesis by auto
  next
    case True
    with "1.prems" have run: "\<not> (i < 0 \<or> int (length (users st)) \<le> i)"
      "\<not> (strcmp_eq (username (users st ! nat i)) uname \<and>
                strcmp_eq (password (users st ! nat i)) passwd)"
      "login_scan st uname passwd (i + 1) = Inr Denied"
      by (subst (asm) login_scan.simps, auto split: if_splits)+
    note ih = "1.IH" [OF True run]
    have "\<not> (strcmp_eq (username (users st ! nat j)) uname \<and>
             strcmp_eq (password (users st ! nat j)) passwd)" if "i \<le> j" "j < user_count st" for j
    proof (cases "j = i")
      case True
      with run(2) show ?thesis by simp
    next
      case False
      with that have "i + 1 \<le> j" by simp
      with ih that show ?thesis by blast
    qed
    then show ?thesis by blast
  qed
qed

text \<open>
  The loop is reached whenever name, colon, password and terminator fit the 64 bytes
  of \<^verbatim>\<open>buffer\<close> and the name is a format without directive.
\<close>

lemma login_defined:
  assumes "strlen_c uname + strlen_c passwd \<le> 62" and "format_ok (c_str uname)"
    and "\<not> (strcmp_eq uname ''admin'' \<and> strcmp_eq passwd ADMIN_PASSWORD)"
  shows "login st uname passwd = login_scan st uname passwd 0"
  using assms
  by (auto simp: login_def strcpy_c_def strcat_c_def printf_fmt_def sprintf_c_def
      strlen_c_def query_text_def c_str_colon)

text \<open>
  Outside these bounds the loop is not reached: the copies into \<^verbatim>\<open>buffer\<close> run
  over its end, or the name is a format that asks for arguments.
\<close>

lemma login_overflow:
  assumes "62 < strlen_c uname + strlen_c passwd"
  shows "\<exists>n. 64 < n \<and> login st uname passwd = Inl (BufferOverflow n 64)"
  using assms
  by (auto simp: login_def strcpy_c_def strcat_c_def strlen_c_def c_str_colon)

lemma login_format:
  assumes "strlen_c uname + strlen_c passwd \<le> 62" and "\<not> format_ok (c_str uname)"
  shows "login st uname passwd = Inl FormatString"
  using assms
  by (auto simp: login_def strcpy_c_def strcat_c_def strlen_c_def c_str_colon printf_fmt_def)

text \<open>
  C2. The claim is that every name and password outside the built-in credential is
  answered by the scan of the table: the first matching user, or failure. The function
  does not get as far for every input. A name of 64 characters is copied with its
  terminator, 65 bytes, into the 64 bytes of \<^verbatim>\<open>buffer\<close>; the name \<^verbatim>\<open>%s\<close> is passed
  to \<^verbatim>\<open>printf\<close> as a format that asks for an argument nobody supplied. In both
  calls the table is empty, so the claim expects the answer \<^verbatim>\<open>Login failed!\<close>.
\<close>

theorem login_long_or_format_input_faults:
  "login init_store (replicate 64 CHR ''a'') ''pw'' = Inl (BufferOverflow 65 64) \<and>
   login init_store ''%s'' ''pw'' = Inl FormatString"
  by (simp add: login_def strcpy_c_def strcat_c_def printf_fmt_def strlen_c_def c_str_def NUL_def)

subsection \<open>register_user\<close>

lemma register_user_Registered:
  assumes "register_user st uname passwd = Inr (Registered, st')"
  shows "0 \<le> user_count st \<and> user_count st < MAX_USERS \<and>
         nat (user_count st) < length (users st) \<and>
         strlen_c uname \<le> 31 \<and> strlen_c passwd \<le> 31 \<and>
         st' = st\<lparr>users := (users st)[nat (user_count st) :=
                   \<lparr>username = c_str uname, password = c_str passwd, is_admin = 0\<rparr>],
                 user_count := user_count st + 1\<rparr>"
  using assms
  by (auto simp: register_user_def strcpy_c_def User_overwrite split: if_splits)

lemma register_user_fits:
  assumes "0 \<le> user_count st" "user_count st < MAX_USERS"
    "nat (user_count st) < length (users st)"
    "strlen_c uname \<le> 31" "strlen_c passwd \<le> 31"
  shows "register_user st uname passwd =
         Inr (Registered, st\<lparr>users := (users st)[nat (user_count st) :=
                   \<lparr>username = c_str uname, password = c_str passwd, is_admin = 0\<rparr>],
                 user_count := user_count st + 1\<rparr>)"
  using assms
  by (auto simp: register_user_def strcpy_c_def User_overwrite)

lemma register_user_full:
  "MAX_USERS \<le> user_count st \<Longrightarrow> register_user st uname passwd = Inr (CapacityExceeded, st)"
  by (simp add: register_user_def)

lemma register_user_overflow:
  assumes "0 \<le> user_count st" "user_count st < MAX_USERS"
    "nat (user_count st) < length (users st)"
    "31 < strlen_c uname \<or> 31 < strlen_c passwd"
  shows "\<exists>n. 32 < n \<and> register_user st uname passwd = Inl (BufferOverflow n 32)"
  using assms
  by (auto simp: register_user_def strcpy_c_def)

lemma register_all_fits:
  assumes "0 \<le> user_count st"
    and "user_count st + int (length ups) \<le> MAX_USERS"
    and "MAX_USERS \<le> int (length (users st))"
    and "\<forall>(u, p) \<in> set ups. strlen_c u \<le> 31 \<and> strlen_c p \<le> 31"
  shows "\<exists>st'. register_all st ups = Inr (replicate (length ups) Registered, st') \<and>
           user_count st' = user_count st + int (length ups) \<and>
           length (users st') = length (users st)"
  using assms
proof (induction ups arbitrary: st)
  case Nil
  then show ?case by simp
next
  case (Cons up ups)
  obtain u p where up: "up = (u, p)" by (cases up)
  let ?st1 = "st\<lparr>users := (users st)[nat (user_count st) :=
                   \<lparr>username = c_str u, password = c_str p, is_admin = 0\<rparr>],
                 user_count := user_count st + 1\<rparr>"
  have fits: "strlen_c u \<le> 31" "strlen_c p \<le> 31"
    using Cons.prems(4) up by auto
  have r: "register_user st u p = Inr (Registered, ?st1)"
    using Cons.prems(1-3) fits by (intro register_user_fits) auto
  have "\<exists>st'. register_all ?st1 ups = Inr (replicate (length ups) Registered, st') \<and>
           user_count st' = user_count ?st1 + int (length ups) \<and>
           length (users st') = length (users ?st1)"
    using Cons.prems by (intro Cons.IH) auto
  then obtain st' where st': "register_all ?st1 ups = Inr (replicate (length ups) Registered, st')"
      "user_count st' = user_count ?st1 + int (length ups)"
      "length (users st') = length (users ?st1)"
    by blast
  show ?case
    using r st' up by simp
qed

text \<open>
  C3. From the empty table, 100 registrations whose names and passwords fit their
  fields all report \<^verbatim>\<open>User registered\<close> and leave \<^verbatim>\<open>user_count\<close> at 100. Any
  further call, whatever its arguments, reports \<^verbatim>\<open>Max users reached\<close> and returns
  the state it was given: \<^verbatim>\<open>user_count\<close> stays 100 and no entry of \<^verbatim>\<open>users\<close>
  changes.
\<close>

theorem registration_capacity:
  assumes "length ups = 100"
    and "\<forall>(u, p) \<in> set ups. strlen_c u \<le> 31 \<and> strlen_c p \<le> 31"
  shows "\<exists>st. register_all init_store ups = Inr (replicate 100 Registered, st) \<and>
           user_count st = 100 \<and>
           (\<forall>u p. register_user st u p = Inr (CapacityExceeded, st))"
proof -
  have "\<exists>st'. register_all init_store ups = Inr (replicate (length ups) Registered, st') \<and>
           user_count st' = user_count init_store + int (length ups) \<and>
           length (users st') = length (users init_store)"
    using assms by (intro register_all_fits) (auto simp: init_store_def MAX_USERS_def)
  then obtain st where st: "register_all init_store ups = Inr (replicate 100 Registered, st)"
      "user_count st = 100"
    using assms(1) by (auto simp: init_store_def)
  have "register_user st u p = Inr (CapacityExceeded, st)" for u p
    using st(2) by (intro register_user_full) (simp add: MAX_USERS_def)
  with st show ?thesis by blast
qed

theorem registration_capacity_witness:
  "\<exists>st. register_all init_store (replicate 100 (''user'', ''pass'')) =
          Inr (replicate 100 Registered, st) \<and>
        user_count st = 100 \<and>
        (\<forall>u p. register_user st u p = Inr (CapacityExceeded, st))"
  using registration_capacity [of "replicate 100 (''user'', ''pass'')"]
  by (simp add: strlen_c_def c_str_def NUL_def)

text \<open>
  C4. The claim is that a name or password of more than 31 characters is refused
  with an error and nothing is written. \<^verbatim>\<open>register_user\<close> has no length check: a
  name of 32 characters goes to \<^verbatim>\<open>strcpy\<close>, which writes 33 bytes into the 32 bytes
  of the field \<^verbatim>\<open>username\<close>.
\<close>

theorem register_user_long_username_overflows:
  "register_user init_store (replicate 32 CHR ''a'') ''pw'' = Inl (BufferOverflow 33 32)"
  by (simp add: register_user_def init_store_def MAX_USERS_def strcpy_c_def strlen_c_def
      c_str_def NUL_def)

text \<open>
  C8. The claim is that the stored password is a hash of the one submitted, never
  the plain text. \<^verbatim>\<open>register_user\<close> copies the password with \<^verbatim>\<open>strcpy\<close>: after
  registering \<^verbatim>\<open>alice\<close> with \<^verbatim>\<open>secret\<close>, the field \<^verbatim>\<open>password\<close> of entry 0 is the
  text \<^verbatim>\<open>secret\<close>. Name and \<^verbatim>\<open>is_admin\<close> are as the claim says.
\<close>

theorem register_user_stores_plaintext:
  "register_user init_store ''alice'' ''secret'' =
     Inr (Registered, init_store\<lparr>users := (users init_store)[0 :=
            \<lparr>username = ''alice'', password = ''secret'', is_admin = 0\<rparr>], user_count := 1\<rparr>)"
  by (simp add: register_user_def init_store_def MAX_USERS_def strcpy_c_def strlen_c_def
      c_str_def NUL_def User_overwrite)

text \<open>
  C9. When \<^verbatim>\<open>register_user\<close> reports \<^verbatim>\<open>User registered\<close> on a table with
  \<^verbatim>\<open>user_count = n\<close>, then \<open>n\<close> is an index of \<^verbatim>\<open>users\<close>, the entry at \<open>n\<close> holds the
  name and password given and \<^verbatim>\<open>is_admin = 0\<close>, every other entry, those below \<open>n\<close>
  among them, is as before, the array keeps its length, \<^verbatim>\<open>user_count\<close> is \<open>n + 1\<close>,
  and nothing else of the state differs.
\<close>

theorem register_user_frame:
  assumes "register_user st uname passwd = Inr (Registered, st')"
  shows "0 \<le> user_count st \<and> nat (user_count st) < length (users st) \<and>
         user_count st' = user_count st + 1 \<and>
         length (users st') = length (users st) \<and>
         users st' ! nat (user_count st) =
           \<lparr>username = c_str uname, password = c_str passwd, is_admin = 0\<rparr> \<and>
         (\<forall>i. i \<noteq> nat (user_count st) \<longrightarrow> users st' ! i = users st ! i) \<and>
         st' = st\<lparr>users := (users st)[nat (user_count st) :=
                   \<lparr>username = c_str uname, password = c_str passwd, is_admin = 0\<rparr>],
                 user_count := user_count st + 1\<rparr>"
proof -
  note r = register_user_Registered [OF assms]
  from r have eq: "st' = st\<lparr>users := (users st)[nat (user_count st) :=
                   \<lparr>username = c_str uname, password = c_str passwd, is_admin = 0\<rparr>],
                 user_count := user_count st + 1\<rparr>" by blast
  from r have rng: "0 \<le> user_count st" "nat (user_count st) < length (users st)" by blast+
  show ?thesis
    using rng by (simp add: eq)
qed

theorem register_user_frame_witness:
  "register_user init_store ''bob'' ''hunter2'' =
     Inr (Registered, init_store\<lparr>users := (users init_store)[0 :=
            \<lparr>username = ''bob'', password = ''hunter2'', is_admin = 0\<rparr>], user_count := 1\<rparr>) \<and>
   users (init_store\<lparr>users := (users init_store)[0 :=
            \<lparr>username = ''bob'', password = ''hunter2'', is_admin = 0\<rparr>], user_count := 1\<rparr>) ! 1
     = users init_store ! 1"
proof -
  have h: "register_user init_store ''bob'' ''hunter2'' =
     Inr (Registered, init_store\<lparr>users := (users init_store)[0 :=
            \<lparr>username = ''bob'', password = ''hunter2'', is_admin = 0\<rparr>], user_count := 1\<rparr>)"
    by (simp add: register_user_def init_store_def MAX_USERS_def strcpy_c_def strlen_c_def
        c_str_def NUL_def User_overwrite)
  from register_user_frame [OF h] show ?thesis
    using h by (simp add: init_store_def)
qed

subsection \<open>allocate_session\<close>

lemma unat_scast_size_t:
  "unat (scast (sz :: c_int) :: size_t) = nat (sint sz mod 2 ^ 64)"
  by (simp only: scast_eq unat_eq_nat_uint uint_word_of_int) simp

lemma unat_scast_nonneg:
  assumes "0 \<le> sint (sz :: c_int)"
  shows "unat (scast sz :: size_t) = nat (sint sz)"
proof -
  have "sint sz < 2 ^ 64"
    using sint_lt [of sz] by simp
  with assms have "sint sz mod 2 ^ 64 = sint sz"
    by simp
  then show ?thesis
    by (simp add: unat_scast_size_t)
qed

lemma unat_scast_neg:
  assumes "sint (sz :: c_int) < 0"
  shows "2 ^ 63 \<le> unat (scast sz :: size_t)"
proof -
  have lo: "- (2 ^ 31) \<le> sint sz"
    using sint_ge [of sz] by simp
  have "sint sz mod 2 ^ 64 = (sint sz + 2 ^ 64) mod 2 ^ 64"
    by simp
  also have "\<dots> = sint sz + 2 ^ 64"
    using lo assms by (intro mod_pos_pos_trivial) simp_all
  finally have "sint sz mod 2 ^ 64 = sint sz + 2 ^ 64" .
  with lo show ?thesis
    by (simp add: unat_scast_size_t)
qed

text \<open>
  A positive size that the allocator grants leaves a live block of exactly that many
  zero bytes behind. A negative size arrives at \<^verbatim>\<open>malloc\<close> as a request of at least
  \<open>2 ^ 63\<close> bytes and is refused by every allocator that refuses such requests; the
  function itself does not look at the sign.
\<close>

lemma allocate_session_positive:
  assumes "0 < sint sz" and "grants h (nat (sint sz))"
  shows "allocate_session h sz =
     Inr (SessionAllocated (Addr (length (blocks h))),
          h\<lparr>blocks := blocks h @ [\<lparr>cells = replicate (nat (sint sz)) NUL, live = True\<rparr>]\<rparr>)"
  using assms
  by (simp add: allocate_session_def malloc_c_def memset_c_def sizeof_char_def unat_scast_nonneg)

lemma allocate_session_negative:
  assumes "sint sz < 0" and "\<And>n. 2 ^ 63 \<le> n \<Longrightarrow> \<not> grants h n"
  shows "allocate_session h sz = Inr (AllocationFailed, h)"
  using assms unat_scast_neg [of sz]
  by (simp add: allocate_session_def malloc_c_def sizeof_char_def)

lemma allocate_session_minus_one:
  "allocate_session glibc_heap (- 1) = Inr (AllocationFailed, glibc_heap)"
  using allocate_session_negative [of "- 1" glibc_heap] by (simp add: glibc_heap_def)

text \<open>
  C6. The claim is that a size of zero or less is refused. \<^verbatim>\<open>allocate_session\<close>
  hands the size to \<^verbatim>\<open>malloc\<close> unchecked, and its only failure is a null pointer
  from there. With an allocator that answers \<^verbatim>\<open>malloc(0)\<close> by a pointer that is not
  null, \<^verbatim>\<open>allocate_session(0)\<close> reports \<^verbatim>\<open>Session allocated: 0 bytes\<close> and leaves a
  live block of no bytes behind.
\<close>

theorem allocate_session_zero_succeeds:
  "allocate_session glibc_heap 0 =
     Inr (SessionAllocated (Addr 0), glibc_heap\<lparr>blocks := [\<lparr>cells = [], live = True\<rparr>]\<rparr>)"
  by (simp add: allocate_session_def malloc_c_def memset_c_def sizeof_char_def glibc_heap_def)

subsection \<open>process_token\<close>

text \<open>
  Every token of more than 10 characters is printed from released storage; a token
  whose copy cannot be allocated makes \<^verbatim>\<open>strlen\<close> read through a null pointer.
\<close>

lemma process_token_long:
  assumes "10 < strlen_c token" and "grants h (strlen_c token + 1)"
  shows "process_token h token = Inl UseAfterFree"
  using assms
  by (simp add: process_token_def strdup_c_def malloc_c_def read_str_def free_c_def
      strlen_c_def c_str_terminated)

lemma process_token_no_memory:
  assumes "\<not> grants h (strlen_c token + 1)"
  shows "process_token h token = Inl NullDeref"
  using assms
  by (simp add: process_token_def strdup_c_def malloc_c_def read_str_def)

text \<open>
  C10. For a token of at most 10 characters whose copy \<^verbatim>\<open>strdup\<close> could allocate,
  \<^verbatim>\<open>process_token\<close> prints exactly the characters of the token, and the heap it
  leaves is the one it found plus the copy, which is still live: the copy is never
  passed to \<^verbatim>\<open>free\<close>, and no other block is touched.
\<close>

theorem process_token_short:
  assumes "strlen_c token \<le> 10" and "grants h (strlen_c token + 1)"
  shows "process_token h token =
         Inr (Processed (c_str token),
              h\<lparr>blocks := blocks h @ [\<lparr>cells = c_str token @ [NUL], live = True\<rparr>]\<rparr>)"
  using assms
  by (simp add: process_token_def strdup_c_def malloc_c_def read_str_def strlen_c_def
      c_str_terminated)

theorem process_token_short_witness:
  "process_token glibc_heap ''tok123'' =
     Inr (Processed ''tok123'',
          glibc_heap\<lparr>blocks := [\<lparr>cells = ''tok123'' @ [NUL], live = True\<rparr>]\<rparr>)"
  using process_token_short [of "''tok123''" glibc_heap]
  by (simp add: strlen_c_def c_str_def NUL_def glibc_heap_def)

text \<open>
  C5. The claim is that the copy is read to the end before it is released, and that a
  read after the release is refused with an error. For a token of 11 characters
  \<^verbatim>\<open>process_token\<close> passes the copy to \<^verbatim>\<open>free\<close> and then hands the same pointer to
  \<^verbatim>\<open>printf\<close> for \<^verbatim>\<open>%s\<close>: the text it prints is read from released storage.
\<close>

theorem process_token_length_11_reads_released:
  "process_token glibc_heap ''ABCDEFGHIJK'' = Inl UseAfterFree"
  by (simp add: process_token_def strdup_c_def malloc_c_def read_str_def free_c_def
      strlen_c_def c_str_def NUL_def glibc_heap_def)

subsection \<open>check_and_read_config\<close>

text \<open>
  When nothing changes between the two calls, the result is 1 exactly for a file that
  exists and may be read. When the file is gone by the time of \<^verbatim>\<open>fopen\<close>, the
  result is 0.
\<close>

lemma check_and_read_config_quiet:
  "check_and_read_config fs fs filepath =
     (case fs (c_str filepath) of None \<Rightarrow> 0 | Some f \<Rightarrow> if readable f then 1 else 0)"
  by (simp add: check_and_read_config_def fopen_r_def access_R_OK_def split: option.splits)

lemma check_and_read_config_gone:
  "fs_fopen (c_str filepath) = None \<Longrightarrow> check_and_read_config fs_access fs_fopen filepath = 0"
  by (simp add: check_and_read_config_def fopen_r_def)

text \<open>
  C7. The claim is that the function makes one attempt to open and read and reports
  what that attempt met, never the answer of an earlier probe. \<^verbatim>\<open>check_and_read_config\<close>
  asks \<^verbatim>\<open>access\<close> first and opens the file only if that call said yes. For a file
  that appears after the probe, \<^verbatim>\<open>fopen\<close> would deliver the content, yet the function
  returns 0 without opening it; and 0 is also all it returns for a missing file and for
  one it may not read.
\<close>

theorem check_and_read_config_uses_stale_probe:
  "check_and_read_config Map.empty
     [''app.conf'' \<mapsto> \<lparr>content = ''key=1'', readable = True\<rparr>] ''app.conf'' = 0 \<and>
   fopen_r [''app.conf'' \<mapsto> \<lparr>content = ''key=1'', readable = True\<rparr>] ''app.conf''
     = Some ''key=1''"
  by (simp add: check_and_read_config_def access_R_OK_def fopen_r_def c_str_def NUL_def)

end
